theory Spec2Isabelle
  imports Main "HOL-Library.Sublist"
begin

section \<open>Python values used by the Gemma MCP client\<close>

text \<open>
  The client (\<^verbatim>\<open>src/apps/gemma_client.py\<close>) handles text, the values that
  \<^verbatim>\<open>json.loads\<close> produces, exceptions, and the result objects of the MCP session.
  A Python \<^verbatim>\<open>str\<close> is a sequence of Unicode code points, and is modelled as a list
  of them. \<open>py\<close> turns a literal written in ASCII into that list.
\<close>

type_synonym codepoint = nat

type_synonym pystr = "codepoint list"

definition py :: "string \<Rightarrow> pystr" where
  "py s = map of_char s"

definition newline :: codepoint where
  "newline = 10"

text \<open>
  A Python float, as far as the program looks at it: it only tests a parsed value for
  truth, and a float is false exactly when it is zero. A finite float is
  \<open>mantissa * 2 ^ exponent\<close>.
\<close>

datatype pyfloat = Finite int int | PosInf | NegInf | NaN

text \<open>
  The values of \<^verbatim>\<open>json.loads\<close>: \<^verbatim>\<open>None\<close>, \<^verbatim>\<open>bool\<close>, \<^verbatim>\<open>int\<close>,
  \<^verbatim>\<open>float\<close>, \<^verbatim>\<open>str\<close>, \<^verbatim>\<open>list\<close> and \<^verbatim>\<open>dict\<close> (keys in insertion order).
  \<open>JNull\<close> is Python's \<^verbatim>\<open>None\<close>.
\<close>

datatype json =
    JNull
  | JBool bool
  | JInt int
  | JFloat pyfloat
  | JString pystr
  | JArray "json list"
  | JObject "(pystr \<times> json) list"

text \<open>Python's truth test, as \<^verbatim>\<open>if function_call_json:\<close> applies it.\<close>

fun truthy :: "json \<Rightarrow> bool" where
  "truthy JNull = False"
| "truthy (JBool b) = b"
| "truthy (JInt i) = (i \<noteq> 0)"
| "truthy (JFloat (Finite m e)) = (m \<noteq> 0)"
| "truthy (JFloat PosInf) = True"
| "truthy (JFloat NegInf) = True"
| "truthy (JFloat NaN) = True"
| "truthy (JString s) = (s \<noteq> [])"
| "truthy (JArray xs) = (xs \<noteq> [])"
| "truthy (JObject kvs) = (kvs \<noteq> [])"

text \<open>
  An exception: its class name and \<^verbatim>\<open>str(e)\<close>. Every exception of this model is an
  instance of \<^verbatim>\<open>Exception\<close>, which is what \<^verbatim>\<open>except Exception\<close> in the chat loop
  catches.
\<close>

datatype exc = Exc (exc_class: string) (exc_str: pystr)

text \<open>\<^verbatim>\<open>xs[0]\<close> on a list, and on the tuple of a match's groups.\<close>

definition index0 :: "pystr \<Rightarrow> 'a list \<Rightarrow> exc + 'a" where
  "index0 kind xs =
     (case xs of
        [] \<Rightarrow> Inl (Exc ''IndexError'' (kind @ py '' index out of range''))
      | x # _ \<Rightarrow> Inr x)"

text \<open>\<^verbatim>\<open>function_call_json["city"]\<close>: only a dict can be subscripted by a string.\<close>

definition quote :: codepoint where
  "quote = 39"

fun getitem :: "json \<Rightarrow> pystr \<Rightarrow> exc + json" where
  "getitem (JObject kvs) k =
     (case map_of kvs k of
        Some v \<Rightarrow> Inr v
      | None \<Rightarrow> Inl (Exc ''KeyError'' ([quote] @ k @ [quote])))"
| "getitem (JString s) k =
     Inl (Exc ''TypeError'' (py ''string indices must be integers, not '' @ [quote] @ py ''str'' @ [quote]))"
| "getitem (JArray xs) k =
     Inl (Exc ''TypeError'' (py ''list indices must be integers or slices, not str''))"
| "getitem JNull k =
     Inl (Exc ''TypeError'' ([quote] @ py ''NoneType'' @ [quote] @ py '' object is not subscriptable''))"
| "getitem (JBool b) k =
     Inl (Exc ''TypeError'' ([quote] @ py ''bool'' @ [quote] @ py '' object is not subscriptable''))"
| "getitem (JInt i) k =
     Inl (Exc ''TypeError'' ([quote] @ py ''int'' @ [quote] @ py '' object is not subscriptable''))"
| "getitem (JFloat f) k =
     Inl (Exc ''TypeError'' ([quote] @ py ''float'' @ [quote] @ py '' object is not subscriptable''))"

text \<open>\<^verbatim>\<open>sep.join(xs)\<close>.\<close>

fun str_join :: "pystr \<Rightarrow> pystr list \<Rightarrow> pystr" where
  "str_join sep [] = []"
| "str_join sep [x] = x"
| "str_join sep (x # y # ys) = x @ sep @ str_join sep (y # ys)"

section \<open>The tool-call pattern and \<^verbatim>\<open>re.search\<close>\<close>

text \<open>
  \<^verbatim>\<open>TOOL_PATTERN\<close> uses three regular-expression constructs: literal characters, the
  lazy \<^verbatim>\<open>.*?\<close> and a capturing group around it. Without \<^verbatim>\<open>re.DOTALL\<close> the dot
  matches every character but the newline.
\<close>

datatype regex_item = Lit codepoint | LazyDotGroup

definition TOOL_PATTERN :: "regex_item list" where
  "TOOL_PATTERN =
     map Lit (py ''```json'' @ [newline]) @ [LazyDotGroup] @ map Lit ([newline] @ py ''``'')"

text \<open>
  Matching at one position, by backtracking, returning the captured groups. A lazy group
  first tries to match nothing and the rest of the pattern; when that fails it takes one
  more character (never a newline) and tries again.
\<close>

fun match_here :: "regex_item list \<Rightarrow> pystr \<Rightarrow> pystr list option"
  and lazy_group :: "regex_item list \<Rightarrow> pystr \<Rightarrow> pystr \<Rightarrow> pystr list option" where
  "match_here [] s = Some []"
| "match_here (Lit c # ps) [] = None"
| "match_here (Lit c # ps) (x # xs) = (if x = c then match_here ps xs else None)"
| "match_here (LazyDotGroup # ps) s = lazy_group ps [] s"
| "lazy_group ps acc s =
     (case match_here ps s of
        Some gs \<Rightarrow> Some (acc # gs)
      | None \<Rightarrow>
          (case s of
             [] \<Rightarrow> None
           | x # xs \<Rightarrow> if x = newline then None else lazy_group ps (acc @ [x]) xs))"

text \<open>\<^verbatim>\<open>re.search\<close>: the match at the leftmost position that has one.\<close>

fun re_search :: "regex_item list \<Rightarrow> pystr \<Rightarrow> pystr list option" where
  "re_search p [] = match_here p []"
| "re_search p (x # xs) =
     (case match_here p (x # xs) of
        Some gs \<Rightarrow> Some gs
      | None \<Rightarrow> re_search p xs)"

text \<open>
  \<^verbatim>\<open>parse_response\<close>. \<^verbatim>\<open>json.loads\<close> is the standard library's parser, taken as a
  parameter: it returns the parsed value or raises \<^verbatim>\<open>JSONDecodeError\<close>. When the
  pattern is not found the function falls off its end and returns \<^verbatim>\<open>None\<close>.
\<close>

definition parse_response :: "(pystr \<Rightarrow> exc + json) \<Rightarrow> pystr \<Rightarrow> exc + json" where
  "parse_response json_loads model_response =
     (case re_search TOOL_PATTERN model_response of
        Some groups \<Rightarrow>
          (case index0 (py ''tuple'') groups of
             Inl e \<Rightarrow> Inl e
           | Inr inner \<Rightarrow> json_loads inner)
      | None \<Rightarrow> Inr JNull)"

section \<open>The MCP session, the model and the terminal\<close>

text \<open>What the session returns: tools, prompts, and content blocks.\<close>

datatype tool = Tool (tool_name: pystr) (tool_description: pystr) (inputSchema: json)

datatype prompt = Prompt (prompt_name: pystr)

datatype content_block = TextContent pystr | ImageContent | EmbeddedResource

datatype prompt_message = PromptMessage (role: pystr) (message_content: content_block)

datatype get_prompt_result = GetPromptResult (messages: "prompt_message list")

datatype call_tool_result = CallToolResult (result_content: "content_block list") (isError: bool)

text \<open>The attribute \<^verbatim>\<open>.text\<close>, which only a text block has.\<close>

fun content_text :: "content_block \<Rightarrow> exc + pystr" where
  "content_text (TextContent t) = Inr t"
| "content_text ImageContent =
     Inl (Exc ''AttributeError''
       ([quote] @ py ''ImageContent'' @ [quote] @ py '' object has no attribute '' @ [quote] @ py ''text'' @ [quote]))"
| "content_text EmbeddedResource =
     Inl (Exc ''AttributeError''
       ([quote] @ py ''EmbeddedResource'' @ [quote] @ py '' object has no attribute '' @ [quote] @ py ''text'' @ [quote]))"

text \<open>\<^verbatim>\<open>prompt.messages[0].content.text\<close> and \<^verbatim>\<open>result.content[0].text\<close>.\<close>

definition first_message_text :: "get_prompt_result \<Rightarrow> exc + pystr" where
  "first_message_text p =
     (case index0 (py ''list'') (messages p) of
        Inl e \<Rightarrow> Inl e
      | Inr m \<Rightarrow> content_text (message_content m))"

definition first_result_text :: "call_tool_result \<Rightarrow> exc + pystr" where
  "first_result_text r =
     (case index0 (py ''list'') (result_content r) of
        Inl e \<Rightarrow> Inl e
      | Inr c \<Rightarrow> content_text c)"

text \<open>
  Everything the client does to the outside world is an event: the request, and for a
  call that returns, what came back (a value or a raised exception). A log record keeps
  its format string and its argument.
\<close>

datatype log_level = DEBUG | INFO

datatype log_arg = ArgStr pystr | ArgJson json

datatype event =
    EvInput pystr "exc + pystr"
  | EvPrint pystr
  | EvLog log_level pystr "log_arg list"
  | EvListTools "exc + tool list"
  | EvListPrompts "exc + prompt list"
  | EvGetPrompt pystr "(pystr \<times> json) list option" "exc + get_prompt_result"
  | EvCallTool pystr json "exc + call_tool_result"
  | EvChat pystr pystr "exc + pystr"

text \<open>
  The collaborators. Each call may change the world \<open>'w\<close> (the server, the model, the
  terminal) and returns a value or raises. \<open>ollama_chat model content\<close> is
  \<^verbatim>\<open>chat(model, messages=[{'role': 'user', 'content': content}])['message']['content']\<close>.
\<close>

record 'w env =
  session_list_tools :: "'w \<Rightarrow> (exc + tool list) \<times> 'w"
  session_list_prompts :: "'w \<Rightarrow> (exc + prompt list) \<times> 'w"
  session_get_prompt ::
    "pystr \<Rightarrow> (pystr \<times> json) list option \<Rightarrow> 'w \<Rightarrow> (exc + get_prompt_result) \<times> 'w"
  session_call_tool :: "pystr \<Rightarrow> json \<Rightarrow> 'w \<Rightarrow> (exc + call_tool_result) \<times> 'w"
  ollama_chat :: "pystr \<Rightarrow> pystr \<Rightarrow> 'w \<Rightarrow> (exc + pystr) \<times> 'w"
  json_loads :: "pystr \<Rightarrow> exc + json"
  builtin_input :: "pystr \<Rightarrow> 'w \<Rightarrow> (exc + pystr) \<times> 'w"

text \<open>
  A piece of the program is an action on the world and the event trace: it returns a
  value or raises, and an exception skips the rest of the sequence.
\<close>

type_synonym 'w state = "'w \<times> event list"

type_synonym ('w, 'a) action = "'w state \<Rightarrow> (exc + 'a) \<times> 'w state"

definition ret :: "'a \<Rightarrow> ('w, 'a) action" where
  "ret x = (\<lambda>s. (Inr x, s))"

definition and_then :: "('w, 'a) action \<Rightarrow> ('a \<Rightarrow> ('w, 'b) action) \<Rightarrow> ('w, 'b) action" where
  "and_then m f =
     (\<lambda>s. case m s of
            (Inl e, s') \<Rightarrow> (Inl e, s')
          | (Inr x, s') \<Rightarrow> f x s')"

definition pure_step :: "exc + 'a \<Rightarrow> ('w, 'a) action" where
  "pure_step r = (\<lambda>s. (r, s))"

definition emit :: "event \<Rightarrow> ('w, unit) action" where
  "emit ev = (\<lambda>(w, tr). (Inr (), (w, tr @ [ev])))"

definition call :: "('w \<Rightarrow> (exc + 'a) \<times> 'w) \<Rightarrow> (exc + 'a \<Rightarrow> event) \<Rightarrow> ('w, 'a) action" where
  "call oracle ev = (\<lambda>(w, tr). case oracle w of (r, w') \<Rightarrow> (r, (w', tr @ [ev r])))"

section \<open>The client\<close>

definition default_model :: pystr where
  "default_model = py ''gemma3:4b''"

text \<open>\<^verbatim>\<open>model_call(model_prompt)\<close>, with the default model.\<close>

definition model_call :: "'w env \<Rightarrow> pystr \<Rightarrow> ('w, pystr) action" where
  "model_call env model_prompt =
     call (ollama_chat env default_model model_prompt) (EvChat default_model model_prompt)"

text \<open>The f-string \<^verbatim>\<open>f"{system_prompt}\n{user_prompt}"\<close>.\<close>

definition combined_prompt :: "pystr \<Rightarrow> pystr \<Rightarrow> pystr" where
  "combined_prompt system_prompt user_prompt = system_prompt @ [newline] @ user_prompt"

definition augmented_model_call :: "'w env \<Rightarrow> pystr \<Rightarrow> pystr \<Rightarrow> ('w, pystr) action" where
  "augmented_model_call env system_prompt user_prompt =
     model_call env (combined_prompt system_prompt user_prompt)"

text \<open>
  \<^verbatim>\<open>MCPClient.process_user_prompt\<close>. The lists \<^verbatim>\<open>messages\<close>,
  \<^verbatim>\<open>available_tools\<close>, \<^verbatim>\<open>available_prompts\<close> and
  \<^verbatim>\<open>assistant_message_content\<close> are built and never read; \<^verbatim>\<open>final_text\<close>
  receives one string in either branch and is joined with newlines.
\<close>

definition process_user_prompt :: "'w env \<Rightarrow> pystr \<Rightarrow> ('w, pystr) action" where
  "process_user_prompt env user_prompt =
     and_then (call (session_list_tools env) EvListTools) (\<lambda>all_tools.
     and_then (call (session_list_prompts env) EvListPrompts) (\<lambda>all_prompts.
     and_then (call (session_get_prompt env (py ''weather_prompt'') None)
                 (EvGetPrompt (py ''weather_prompt'') None)) (\<lambda>prompt.
     and_then (pure_step (first_message_text prompt)) (\<lambda>system_prompt.
     and_then (augmented_model_call env system_prompt user_prompt) (\<lambda>model_response.
     and_then (pure_step (parse_response (json_loads env) model_response)) (\<lambda>function_call_json.
     if truthy function_call_json then
       and_then (emit (EvLog INFO (py ''Tool call with %s'') [ArgJson function_call_json])) (\<lambda>_.
       and_then (call (session_call_tool env (py ''weather_tool'') function_call_json)
                   (EvCallTool (py ''weather_tool'') function_call_json)) (\<lambda>result.
       and_then (pure_step (first_result_text result)) (\<lambda>weather_result.
       and_then (pure_step (getitem function_call_json (py ''city''))) (\<lambda>city.
       let arguments = Some [(py ''city'', city), (py ''weather'', JString weather_result)] in
       and_then (call (session_get_prompt env (py ''weather_response_prompt'') arguments)
                   (EvGetPrompt (py ''weather_response_prompt'') arguments)) (\<lambda>weather_prompt_message.
       and_then (pure_step (first_message_text weather_prompt_message)) (\<lambda>weather_prompt_text.
       and_then (emit (EvLog INFO (py ''Weather prompt is %s'') [ArgStr weather_prompt_text])) (\<lambda>_.
       and_then (model_call env weather_prompt_text) (\<lambda>model_response2.
       ret (str_join [newline] [model_response2])))))))))
     else
       and_then (emit (EvLog DEBUG (py ''No tool call'') [])) (\<lambda>_.
       ret (str_join [newline] [model_response]))))))))"

text \<open>
  \<^verbatim>\<open>str.strip()\<close> removes white space from both ends. The white space of a
  \<^verbatim>\<open>str\<close> is that of the Unicode character database: the ASCII controls
  U+0009 to U+000D and U+001C to U+001F, the space, U+0085, U+00A0, U+1680, U+2000 to
  U+200A, U+2028, U+2029, U+202F, U+205F and U+3000.
\<close>

definition isspace :: "codepoint \<Rightarrow> bool" where
  "isspace c =
     ((9 \<le> c \<and> c \<le> 13) \<or> (28 \<le> c \<and> c \<le> 32) \<or> c = 0x85 \<or> c = 0xA0 \<or> c = 0x1680
      \<or> (0x2000 \<le> c \<and> c \<le> 0x200A) \<or> c = 0x2028 \<or> c = 0x2029 \<or> c = 0x202F
      \<or> c = 0x205F \<or> c = 0x3000)"

definition strip :: "pystr \<Rightarrow> pystr" where
  "strip s = rev (dropWhile isspace (rev (dropWhile isspace s)))"

text \<open>
  \<^verbatim>\<open>str.lower()\<close> is only ever compared with \<^verbatim>\<open>'q'\<close>. The letters A to Z
  are lower-cased here; other characters are left as they are, which does not change the
  comparison: \<^verbatim>\<open>Q\<close> is the only character that Unicode lower-cases to \<^verbatim>\<open>q\<close>.
\<close>

definition lower_char :: "codepoint \<Rightarrow> codepoint" where
  "lower_char c =
     (case map_of (zip (py ''ABCDEFGHIJKLMNOPQRSTUVWXYZ'') (py ''abcdefghijklmnopqrstuvwxyz'')) c of
        Some l \<Rightarrow> l
      | None \<Rightarrow> c)"

definition lower :: "pystr \<Rightarrow> pystr" where
  "lower s = map lower_char s"

text \<open>
  \<^verbatim>\<open>MCPClient.chat_loop\<close>. One pass through the body of \<^verbatim>\<open>while True\<close> either
  breaks out of the loop or goes round again; \<^verbatim>\<open>except Exception\<close> turns an
  exception of the body into a printed line. The loop itself may run forever, so its
  result is optional: \<open>None\<close> is a loop that never returns.
\<close>

datatype loop_control = Break | Continue

definition input_prompt :: pystr where
  "input_prompt = [newline] @ py ''user_prompt: ''"

definition chat_loop_try :: "'w env \<Rightarrow> ('w, loop_control) action" where
  "chat_loop_try env =
     and_then (call (builtin_input env input_prompt) (EvInput input_prompt)) (\<lambda>line.
     let user_prompt = strip line in
     and_then (emit (EvLog INFO (py ''User prompt is: %s'') [ArgStr user_prompt])) (\<lambda>_.
     if lower user_prompt = py ''q'' then ret Break
     else
       and_then (process_user_prompt env user_prompt) (\<lambda>response.
       and_then (emit (EvPrint ([newline] @ response))) (\<lambda>_.
       ret Continue))))"

definition chat_loop_body :: "'w env \<Rightarrow> 'w state \<Rightarrow> loop_control \<times> 'w state" where
  "chat_loop_body env s =
     (case chat_loop_try env s of
        (Inr c, s') \<Rightarrow> (c, s')
      | (Inl e, s') \<Rightarrow>
          (Continue, snd (emit (EvPrint ([newline] @ py ''Error: '' @ exc_str e)) s')))"

partial_function (option) chat_loop_while :: "'w env \<Rightarrow> 'w state \<Rightarrow> 'w state option" where
  "chat_loop_while env s =
     (case chat_loop_body env s of
        (Break, s') \<Rightarrow> Some s'
      | (Continue, s') \<Rightarrow> chat_loop_while env s')"

definition chat_loop :: "'w env \<Rightarrow> 'w state \<Rightarrow> 'w state option" where
  "chat_loop env s =
     (case and_then (emit (EvPrint ([newline] @ py ''MCP Client Started!''))) (\<lambda>_.
           emit (EvPrint (py ''Type your queries or '' @ [quote] @ py ''quit'' @ [quote] @ py '' to exit.''))) s of
        (_, s') \<Rightarrow> chat_loop_while env s')"

section \<open>Reading a trace\<close>

text \<open>Model calls, tool calls, and the replies the model gave, in a trace.\<close>

fun is_chat :: "event \<Rightarrow> bool" where
  "is_chat (EvChat m p r) = True"
| "is_chat _ = False"

fun is_call_tool :: "event \<Rightarrow> bool" where
  "is_call_tool (EvCallTool n a r) = True"
| "is_call_tool _ = False"

fun chat_replies :: "event list \<Rightarrow> pystr list" where
  "chat_replies [] = []"
| "chat_replies (EvChat m p (Inr r) # evs) = r # chat_replies evs"
| "chat_replies (ev # evs) = chat_replies evs"

text \<open>The two literal parts of \<^verbatim>\<open>TOOL_PATTERN\<close>.\<close>

definition fence_open :: pystr where
  "fence_open = py ''```json'' @ [newline]"

definition fence_close :: pystr where
  "fence_close = [newline] @ py ''``''"

text \<open>
  The fenced block as the specification words it: the opening marker (three backticks,
  \<^verbatim>\<open>json\<close>, a newline) and, somewhere after it, three backticks that close it.
  \<open>after_first pat s\<close> is the text that follows the first \<open>pat\<close> in \<open>s\<close>.
\<close>

fun after_first :: "pystr \<Rightarrow> pystr \<Rightarrow> pystr option" where
  "after_first pat [] = (if pat = [] then Some [] else None)"
| "after_first pat (x # xs) =
     (if prefix pat (x # xs) then Some (drop (length pat) (x # xs)) else after_first pat xs)"

definition has_well_formed_fence :: "pystr \<Rightarrow> bool" where
  "has_well_formed_fence s =
     (case after_first (py ''```json'' @ [newline]) s of
        None \<Rightarrow> False
      | Some rest \<Rightarrow> sublist (py ''```'') rest)"

text \<open>
  \<^verbatim>\<open>json.loads\<close> reads more than JSON: it takes the literal \<^verbatim>\<open>NaN\<close> for the float
  not-a-number. JSON has no such literal, and no JSON number parses to it, so a text whose
  parse holds not-a-number is not valid JSON.
\<close>

fun holds_nan :: "json \<Rightarrow> bool" where
  "holds_nan (JFloat f) = (f = NaN)"
| "holds_nan (JArray xs) = list_ex holds_nan xs"
| "holds_nan (JObject kvs) = list_ex (\<lambda>kv. holds_nan (snd kv)) kvs"
| "holds_nan _ = False"

section \<open>A scripted session, model and terminal\<close>

text \<open>
  A concrete set of collaborators, on which the theorems below are run: a weather server
  with one tool and two prompts, a model that answers the first prompt with a given
  reply, a parser that knows four payloads (one of them written on one line and on three), and a terminal that types the lines of a
  list (and raises \<^verbatim>\<open>EOFError\<close> after the last).
\<close>

definition scripted_loads :: "pystr \<Rightarrow> exc + json" where
  \<open>scripted_loads s =
     (if s = py ''{"city": "Paris"}'' then Inr (JObject [(py ''city'', JString (py ''Paris''))])
      else if s = py ''{'' @ [newline] @ py ''"city": "Paris"'' @ [newline] @ py ''}''
      then Inr (JObject [(py ''city'', JString (py ''Paris''))])
      else if s = py ''{"city": "Paris", "x": NaN}''
      then Inr (JObject [(py ''city'', JString (py ''Paris'')), (py ''x'', JFloat NaN)])
      else if s = py ''{}'' then Inr (JObject [])
      else Inl (Exc ''JSONDecodeError'' (py ''Expecting value: line 1 column 1 (char 0)'')))\<close>

definition scripted_input :: "pystr \<Rightarrow> pystr list \<Rightarrow> (exc + pystr) \<times> pystr list" where
  "scripted_input p w =
     (case w of
        [] \<Rightarrow> (Inl (Exc ''EOFError'' (py ''EOF when reading a line'')), [])
      | l # ls \<Rightarrow> (Inr l, ls))"

definition system_text :: pystr where
  "system_text = py ''You can call weather_tool.''"

definition follow_up_text :: pystr where
  "follow_up_text = py ''Report the weather: Paris, Sunny, 20C''"

definition scripted_get_prompt ::
  "pystr \<Rightarrow> (pystr \<times> json) list option \<Rightarrow> pystr list \<Rightarrow> (exc + get_prompt_result) \<times> pystr list" where
  "scripted_get_prompt n args w =
     (if n = py ''weather_prompt'' \<and> args = None
      then (Inr (GetPromptResult [PromptMessage (py ''user'') (TextContent system_text)]), w)
      else if n = py ''weather_response_prompt''
        \<and> args = Some [(py ''city'', JString (py ''Paris'')), (py ''weather'', JString (py ''Sunny, 20C''))]
      then (Inr (GetPromptResult [PromptMessage (py ''user'') (TextContent follow_up_text)]), w)
      else (Inl (Exc ''McpError'' (py ''Unknown prompt'')), w))"

definition scripted_env :: "pystr \<Rightarrow> pystr list env" where
  "scripted_env first_reply =
     \<lparr> session_list_tools =
         (\<lambda>w. (Inr [Tool (py ''weather_tool'') (py ''Weather of a city'') (JObject [])], w)),
       session_list_prompts =
         (\<lambda>w. (Inr [Prompt (py ''weather_prompt''), Prompt (py ''weather_response_prompt'')], w)),
       session_get_prompt = scripted_get_prompt,
       session_call_tool =
         (\<lambda>n args w. (Inr (CallToolResult [TextContent (py ''Sunny, 20C'')] False), w)),
       ollama_chat =
         (\<lambda>m p w. if p = follow_up_text then (Inr (py ''It is sunny in Paris.''), w)
                   else (Inr first_reply, w)),
       json_loads = scripted_loads,
       builtin_input = scripted_input \<rparr>"

definition reply_paris :: pystr where
  \<open>reply_paris = py ''```json'' @ [newline] @ py ''{"city": "Paris"}'' @ [newline] @ py ''```''\<close>

definition reply_multiline :: pystr where
  \<open>reply_multiline =
     (py ''```json'') @ [newline] @ py ''{'' @ [newline] @ py ''"city": "Paris"'' @ [newline] @ py ''}''
       @ [newline] @ py ''```''\<close>

definition reply_nan :: pystr where
  \<open>reply_nan =
     py ''```json'' @ [newline] @ py ''{"city": "Paris", "x": NaN}'' @ [newline] @ py ''```''\<close>

definition reply_empty_object :: pystr where
  "reply_empty_object = py ''```json'' @ [newline] @ py ''{}'' @ [newline] @ py ''```''"

definition reply_bad_json :: pystr where
  "reply_bad_json = py ''```json'' @ [newline] @ py ''nope'' @ [newline] @ py ''```''"

declare lazy_group.simps [simp del]

lemmas run_defs =
  and_then_def call_def pure_step_def emit_def ret_def model_call_def augmented_model_call_def

lemmas scripted_defs =
  scripted_env_def scripted_get_prompt_def scripted_loads_def scripted_input_def
  first_message_text_def first_result_text_def index0_def system_text_def follow_up_text_def
  py_def

section \<open>The pattern on fenced text\<close>

lemma match_here_lits:
  "match_here (map Lit ls @ ps) s =
     (if prefix ls s then match_here ps (drop (length ls) s) else None)"
proof (induction ls arbitrary: s)
  case Nil
  then show ?case by simp
next
  case (Cons c ls)
  then show ?case by (cases s) auto
qed

lemma match_here_close:
  "match_here (map Lit fence_close) s = (if prefix fence_close s then Some [] else None)"
  using match_here_lits [of fence_close "[]" s] by simp

lemma lazy_group_close:
  "newline \<notin> set inner \<Longrightarrow>
   lazy_group (map Lit fence_close) acc (inner @ fence_close @ post) = Some [acc @ inner]"
proof (induction inner arbitrary: acc)
  case Nil
  then show ?case
    by (subst lazy_group.simps) (simp add: match_here_close)
next
  case (Cons x xs)
  then have "\<not> prefix fence_close ((x # xs) @ fence_close @ post)"
    by (auto simp: fence_close_def py_def)
  with Cons show ?case
    by (subst lazy_group.simps) (auto simp: match_here_close)
qed

lemma TOOL_PATTERN_split:
  "TOOL_PATTERN = map Lit fence_open @ LazyDotGroup # map Lit fence_close"
  by (simp add: TOOL_PATTERN_def fence_open_def py_def fence_close_def)

lemma match_here_TOOL_PATTERN:
  "match_here TOOL_PATTERN s =
     (if prefix fence_open s
      then lazy_group (map Lit fence_close) [] (drop (length fence_open) s) else None)"
  unfolding TOOL_PATTERN_split by (simp add: match_here_lits)

lemma match_here_fence:
  "newline \<notin> set inner \<Longrightarrow>
   match_here TOOL_PATTERN (fence_open @ inner @ fence_close @ post) = Some [inner]"
  by (simp add: match_here_TOOL_PATTERN lazy_group_close)

lemma fence_open_no_overlap:
  assumes "prefix fence_open (t @ fence_open @ r)"
  shows "t = [] \<or> prefix fence_open t"
  using assms
  apply (simp add: prefix_append)
  apply (erule disjE)
   apply simp
  apply (auto simp: fence_open_def py_def newline_def append_eq_Cons_conv Cons_eq_append_conv)
  done

lemma re_search_skip:
  "\<not> sublist fence_open pre \<Longrightarrow>
   re_search TOOL_PATTERN (pre @ fence_open @ r) = re_search TOOL_PATTERN (fence_open @ r)"
proof (induction pre)
  case Nil
  then show ?case by simp
next
  case (Cons x pre)
  from Cons.prems have np: "\<not> prefix fence_open (x # pre)" and ns: "\<not> sublist fence_open pre"
    by (auto simp: sublist_Cons_right)
  have "\<not> prefix fence_open ((x # pre) @ fence_open @ r)"
    using fence_open_no_overlap [of "x # pre" r] np by auto
  then have "match_here TOOL_PATTERN ((x # pre) @ fence_open @ r) = None"
    by (simp add: match_here_TOOL_PATTERN)
  with Cons.IH [OF ns] show ?case by simp
qed

lemma re_search_first_fence:
  assumes "\<not> sublist fence_open pre" "newline \<notin> set inner"
  shows "re_search TOOL_PATTERN (pre @ fence_open @ inner @ fence_close @ post) = Some [inner]"
proof -
  have "re_search TOOL_PATTERN (fence_open @ inner @ fence_close @ post) = Some [inner]"
    using match_here_fence [OF assms(2), of post]
    by (cases "fence_open @ inner @ fence_close @ post") (auto simp: fence_open_def py_def)
  then show ?thesis using re_search_skip [OF assms(1)] by simp
qed

lemma re_search_no_opener:
  "\<not> sublist fence_open s \<Longrightarrow> re_search TOOL_PATTERN s = None"
proof (induction s)
  case Nil
  then show ?case by (simp add: match_here_TOOL_PATTERN fence_open_def py_def)
next
  case (Cons x s)
  then show ?case by (auto simp: sublist_Cons_right match_here_TOOL_PATTERN)
qed

text \<open>
  Conversely, whatever the pattern finds is an opening marker, a payload with no newline
  in it, and a newline with two backticks; the payload is the one captured group.
\<close>

lemma lazy_group_close_SomeD:
  "lazy_group (map Lit fence_close) acc s = Some gs \<Longrightarrow>
   \<exists>inner post. s = inner @ fence_close @ post \<and> newline \<notin> set inner \<and> gs = [acc @ inner]"
proof (induction s arbitrary: acc)
  case Nil
  then show ?case
    by (subst (asm) lazy_group.simps) (simp add: match_here_close fence_close_def py_def)
next
  case (Cons x xs)
  show ?case
  proof (cases "prefix fence_close (x # xs)")
    case True
    then obtain post where "x # xs = fence_close @ post"
      by (auto simp: prefix_def)
    moreover from True Cons.prems have "gs = [acc]"
      by (subst (asm) lazy_group.simps) (simp add: match_here_close)
    ultimately show ?thesis
      by (intro exI [of _ "[]"] exI [of _ post]) simp
  next
    case False
    with Cons.prems have x: "x \<noteq> newline"
      and rest: "lazy_group (map Lit fence_close) (acc @ [x]) xs = Some gs"
      by (subst (asm) lazy_group.simps, simp add: match_here_close split: if_splits)+
    from Cons.IH [OF rest] obtain inner post
      where "xs = inner @ fence_close @ post" "newline \<notin> set inner" "gs = [(acc @ [x]) @ inner]"
      by blast
    with x show ?thesis
      by (intro exI [of _ "x # inner"] exI [of _ post]) simp
  qed
qed

lemma match_here_TOOL_PATTERN_SomeD:
  assumes "match_here TOOL_PATTERN s = Some gs"
  shows "\<exists>inner post. s = fence_open @ inner @ fence_close @ post
           \<and> newline \<notin> set inner \<and> gs = [inner]"
proof -
  from assms have p: "prefix fence_open s"
    and l: "lazy_group (map Lit fence_close) [] (drop (length fence_open) s) = Some gs"
    by (simp_all add: match_here_TOOL_PATTERN split: if_splits)
  from p obtain r where s: "s = fence_open @ r" by (auto simp: prefix_def)
  with l have "lazy_group (map Lit fence_close) [] r = Some gs" by simp
  from lazy_group_close_SomeD [OF this] s show ?thesis by auto
qed

lemma re_search_SomeD:
  "re_search TOOL_PATTERN s = Some gs \<Longrightarrow>
   \<exists>pre inner post. s = pre @ fence_open @ inner @ fence_close @ post
      \<and> newline \<notin> set inner \<and> gs = [inner]"
proof (induction s)
  case Nil
  then show ?case by (simp add: match_here_TOOL_PATTERN fence_open_def py_def)
next
  case (Cons x xs)
  show ?case
  proof (cases "match_here TOOL_PATTERN (x # xs)")
    case (Some gs')
    with Cons.prems have "gs' = gs" by simp
    with Some match_here_TOOL_PATTERN_SomeD [of "x # xs" gs] obtain inner post
      where "x # xs = fence_open @ inner @ fence_close @ post" "newline \<notin> set inner" "gs = [inner]"
      by blast
    then show ?thesis
      by (intro exI [of _ "[]"] exI [of _ inner] exI [of _ post]) simp
  next
    case None
    with Cons.prems have "re_search TOOL_PATTERN xs = Some gs" by simp
    from Cons.IH [OF this] obtain pre inner post
      where "xs = pre @ fence_open @ inner @ fence_close @ post" "newline \<notin> set inner" "gs = [inner]"
      by blast
    then show ?thesis
      by (intro exI [of _ "x # pre"] exI [of _ inner] exI [of _ post]) simp
  qed
qed

lemma parse_response_no_opening_marker:
  "\<not> sublist fence_open s \<Longrightarrow> parse_response loads s = Inr JNull"
  by (simp add: parse_response_def re_search_no_opener)

lemmas pattern_eval = TOOL_PATTERN_def newline_def py_def lazy_group.simps sublist_code

section \<open>Actions that return a value\<close>

lemma and_then_InrE:
  assumes "and_then m f s = (Inr y, s'')"
  obtains x s' where "m s = (Inr x, s')" and "f x s' = (Inr y, s'')"
  using assms by (auto simp: and_then_def split: prod.splits sum.splits)

lemma call_InrE:
  assumes "call oracle ev s = (Inr x, s')"
  obtains w' where "s' = (w', snd s @ [ev (Inr x)])"
  using assms by (auto simp: call_def split: prod.splits)

lemma emit_InrE:
  assumes "emit ev s = (Inr u, s')"
  obtains "s' = (fst s, snd s @ [ev])"
  using assms by (auto simp: emit_def split: prod.splits)

lemma pure_step_InrE:
  assumes "pure_step r s = (Inr x, s')"
  obtains "r = Inr x" and "s' = s"
  using assms by (auto simp: pure_step_def)

lemma ret_InrE:
  assumes "ret x s = (Inr y, s')"
  obtains "y = x" and "s' = s"
  using assms by (auto simp: ret_def)

lemmas action_InrE = and_then_InrE call_InrE emit_InrE pure_step_InrE ret_InrE

section \<open>One pass of the chat loop\<close>

text \<open>The loop's test for the quit token holds of \<^verbatim>\<open>q\<close> and \<^verbatim>\<open>Q\<close> alone.\<close>

lemma lower_char_eq_q_iff: "lower_char c = 113 \<longleftrightarrow> c = 113 \<or> c = 81"
  by (auto simp: lower_char_def py_def split: option.splits if_splits)

lemma lower_eq_q_iff: "lower s = py ''q'' \<longleftrightarrow> s = py ''q'' \<or> s = py ''Q''"
  by (cases s) (auto simp: lower_def py_def lower_char_eq_q_iff)

lemma chat_loop_body_quit:
  assumes "builtin_input env input_prompt w = (Inr line, w1)"
    and "lower (strip line) = py ''q''"
  shows "chat_loop_body env (w, tr) =
           (Break, (w1, tr @ [EvInput input_prompt (Inr line),
                              EvLog INFO (py ''User prompt is: %s'') [ArgStr (strip line)]]))"
  using assms
  by (simp add: chat_loop_body_def chat_loop_try_def and_then_def call_def emit_def ret_def
        Let_def)

lemma chat_loop_body_answer:
  assumes "builtin_input env input_prompt w = (Inr line, w1)"
    and "lower (strip line) \<noteq> (py ''q'')"
    and "process_user_prompt env (strip line)
           (w1, tr @ [EvInput input_prompt (Inr line),
                      EvLog INFO (py ''User prompt is: %s'') [ArgStr (strip line)]])
           = (Inr response, (w2, tr2))"
  shows "chat_loop_body env (w, tr) = (Continue, (w2, tr2 @ [EvPrint ([newline] @ response)]))"
  using assms
  by (simp add: chat_loop_body_def chat_loop_try_def and_then_def call_def emit_def ret_def
        Let_def)

lemma chat_loop_body_error:
  assumes "builtin_input env input_prompt w = (Inr line, w1)"
    and "lower (strip line) \<noteq> (py ''q'')"
    and "process_user_prompt env (strip line)
           (w1, tr @ [EvInput input_prompt (Inr line),
                      EvLog INFO (py ''User prompt is: %s'') [ArgStr (strip line)]])
           = (Inl e, (w2, tr2))"
  shows "chat_loop_body env (w, tr) =
           (Continue, (w2, tr2 @ [EvPrint ([newline] @ py ''Error: '' @ exc_str e)]))"
  using assms
  by (simp add: chat_loop_body_def chat_loop_try_def and_then_def call_def emit_def Let_def)

lemma chat_loop_while_Break:
  "chat_loop_body env s = (Break, s') \<Longrightarrow> chat_loop_while env s = Some s'"
  by (subst chat_loop_while.simps) simp

lemma chat_loop_while_Continue:
  "chat_loop_body env s = (Continue, s') \<Longrightarrow> chat_loop_while env s = chat_loop_while env s'"
  by (subst chat_loop_while.simps) simp

lemma scripted_quit:
  "lower (strip line) = py ''q'' \<Longrightarrow>
   chat_loop_while (scripted_env r) (line # ls, tr) =
     Some (ls, tr @ [EvInput input_prompt (Inr line),
                     EvLog INFO (py ''User prompt is: %s'') [ArgStr (strip line)]])"
  by (rule chat_loop_while_Break, rule chat_loop_body_quit)
     (simp_all add: scripted_env_def scripted_input_def)

section \<open>Claims\<close>

text \<open>
  Claim C1: a model output with no well-formed fenced JSON block (opened by three backticks,
  \<^verbatim>\<open>json\<close> and a newline, closed by three backticks) makes \<^verbatim>\<open>parse_response\<close>
  return \<^verbatim>\<open>None\<close>, malformed fences included. The pattern closes on a newline and
  two backticks only, so it accepts a fence that is never closed by three: the output
  below has no well-formed fence, and \<^verbatim>\<open>parse_response\<close> returns what
  \<^verbatim>\<open>json.loads\<close> makes of the payload instead of \<^verbatim>\<open>None\<close>.
\<close>

theorem parse_response_two_backtick_close:
  \<open>\<not> has_well_formed_fence (py ''```json'' @ [newline] @ py ''{"city": "Paris"}'' @ [newline] @ py ''``'')
   \<and> parse_response loads (py ''```json'' @ [newline] @ py ''{"city": "Paris"}'' @ [newline] @ py ''``'')
       = loads (py ''{"city": "Paris"}'')\<close>
  by (simp add: has_well_formed_fence_def parse_response_def index0_def pattern_eval)

text \<open>
  Claim C2, amended: when the first opening marker of the output is followed by a payload
  on a single line, a newline and three backticks, \<^verbatim>\<open>parse_response\<close> returns exactly
  what \<^verbatim>\<open>json.loads\<close> returns for the payload: the parsed object when the payload is
  valid JSON, with nothing added, removed or coerced. (As stated, for every fenced block
  holding a valid JSON object, the claim fails: the dot of the pattern does not cross a
  newline, so an object written on several lines is not found.)
\<close>

theorem parse_response_first_fence:
  assumes "\<not> sublist (py ''```json'' @ [newline]) pre"
    and "newline \<notin> set inner"
  shows "parse_response loads
           (pre @ py ''```json'' @ [newline] @ inner @ [newline] @ py ''```'' @ post) = loads inner"
proof -
  have "re_search TOOL_PATTERN (pre @ fence_open @ inner @ fence_close @ (py ''`'' @ post))
          = Some [inner]"
    using assms by (intro re_search_first_fence) (simp_all add: fence_open_def py_def)
  then show ?thesis
    by (simp add: parse_response_def index0_def fence_open_def py_def fence_close_def)
qed

theorem parse_response_first_fence_witness:
  \<open>parse_response scripted_loads
     (py ''Calling the tool. ```json'' @ [newline] @ py ''{"city": "Paris"}'' @ [newline] @ py ''``` Done.'')
   = Inr (JObject [(py ''city'', JString (py ''Paris''))])\<close>
  using parse_response_first_fence
    [of "py ''Calling the tool. ''" \<open>py ''{"city": "Paris"}''\<close> scripted_loads "py '' Done.''"]
  by (simp add: newline_def scripted_loads_def sublist_code py_def)

text \<open>
  The claim as stated fails on an object written on several lines: the block is well
  formed and its payload is a JSON object, and \<^verbatim>\<open>parse_response\<close> returns
  \<^verbatim>\<open>None\<close>.
\<close>

theorem parse_response_multiline_object_absent:
  \<open>has_well_formed_fence reply_multiline
   \<and> scripted_loads (py ''{'' @ [newline] @ py ''"city": "Paris"'' @ [newline] @ py ''}'')
       = Inr (JObject [(py ''city'', JString (py ''Paris''))])
   \<and> parse_response scripted_loads reply_multiline = Inr JNull\<close>
  by (simp add: has_well_formed_fence_def parse_response_def index0_def pattern_eval
        reply_multiline_def scripted_loads_def)

text \<open>
  Claim C3, amended: when the pattern is found in the model response and
  \<^verbatim>\<open>json.loads\<close> raises on the captured text, the turn raises that same exception:
  no answer is returned, and nothing further is called. (As stated, for every captured
  text that is not valid JSON, the claim fails: \<^verbatim>\<open>json.loads\<close> accepts some texts
  that are not JSON, and the turn then goes on to an answer.)
\<close>

theorem invalid_json_aborts_turn:
  assumes "session_list_tools env w0 = (Inr tools, w1)"
    and "session_list_prompts env w1 = (Inr prompts, w2)"
    and "session_get_prompt env (py ''weather_prompt'') None w2 = (Inr prompt, w3)"
    and "first_message_text prompt = Inr system_prompt"
    and "ollama_chat env default_model (system_prompt @ [newline] @ user_prompt) w3
           = (Inr model_response, w4)"
    and "re_search TOOL_PATTERN model_response = Some (inner # groups)"
    and "json_loads env inner = Inl e"
  shows "process_user_prompt env user_prompt (w0, tr) =
           (Inl e,
            (w4, tr @ [EvListTools (Inr tools), EvListPrompts (Inr prompts),
                       EvGetPrompt (py ''weather_prompt'') None (Inr prompt),
                       EvChat default_model (system_prompt @ [newline] @ user_prompt)
                         (Inr model_response)]))"
  using assms
  by (simp add: process_user_prompt_def run_defs combined_prompt_def parse_response_def index0_def)

theorem invalid_json_aborts_turn_witness:
  "process_user_prompt (scripted_env reply_bad_json) (py ''weather in Paris'') ([], []) =
     (Inl (Exc ''JSONDecodeError'' (py ''Expecting value: line 1 column 1 (char 0)'')),
      ([], [EvListTools (Inr [Tool (py ''weather_tool'') (py ''Weather of a city'') (JObject [])]),
            EvListPrompts (Inr [Prompt (py ''weather_prompt''), Prompt (py ''weather_response_prompt'')]),
            EvGetPrompt (py ''weather_prompt'') None
              (Inr (GetPromptResult [PromptMessage (py ''user'') (TextContent system_text)])),
            EvChat default_model (system_text @ [newline] @ py ''weather in Paris'')
              (Inr reply_bad_json)]))"
  using invalid_json_aborts_turn
    [of "scripted_env reply_bad_json" "[]"
        "[Tool (py ''weather_tool'') (py ''Weather of a city'') (JObject [])]" "[]"
        "[Prompt (py ''weather_prompt''), Prompt (py ''weather_response_prompt'')]" "[]"
        "GetPromptResult [PromptMessage (py ''user'') (TextContent system_text)]" "[]"
        system_text "py ''weather in Paris''" reply_bad_json "[]" "py ''nope''" "[]"
        "Exc ''JSONDecodeError'' (py ''Expecting value: line 1 column 1 (char 0)'')" "[]"]
  by (simp add: scripted_defs reply_bad_json_def pattern_eval)

text \<open>
  The claim as stated fails on a payload with the literal \<^verbatim>\<open>NaN\<close>: the pattern
  finds it, it is not valid JSON, \<^verbatim>\<open>json.loads\<close> returns a dict for it, and the
  turn takes the tool branch and returns an answer.
\<close>

theorem nan_payload_turn_answers:
  \<open>re_search TOOL_PATTERN reply_nan = Some [py ''{"city": "Paris", "x": NaN}'']
   \<and> scripted_loads (py ''{"city": "Paris", "x": NaN}'')
       = Inr (JObject [(py ''city'', JString (py ''Paris'')), (py ''x'', JFloat NaN)])
   \<and> holds_nan (JObject [(py ''city'', JString (py ''Paris'')), (py ''x'', JFloat NaN)])
   \<and> fst (process_user_prompt (scripted_env reply_nan) (py ''weather in Paris'') ([], []))
       = Inr (py ''It is sunny in Paris.'')\<close>
  by (simp add: process_user_prompt_def run_defs combined_prompt_def Let_def scripted_defs
        reply_nan_def parse_response_def pattern_eval)




text \<open>
  Claim C5: when extraction yields \<^verbatim>\<open>None\<close>, the turn returns the first model
  response verbatim; the model has been called once, no tool is invoked, and after the
  branch the turn makes no call to the session or the model.
\<close>

theorem direct_branch_answer:
  assumes "session_list_tools env w0 = (Inr tools, w1)"
    and "session_list_prompts env w1 = (Inr prompts, w2)"
    and "session_get_prompt env (py ''weather_prompt'') None w2 = (Inr prompt, w3)"
    and "first_message_text prompt = Inr system_prompt"
    and "ollama_chat env default_model (system_prompt @ [newline] @ user_prompt) w3
           = (Inr model_response, w4)"
    and "parse_response (json_loads env) model_response = Inr JNull"
  shows "let evs = [EvListTools (Inr tools), EvListPrompts (Inr prompts),
                    EvGetPrompt (py ''weather_prompt'') None (Inr prompt),
                    EvChat default_model (system_prompt @ [newline] @ user_prompt)
                      (Inr model_response),
                    EvLog DEBUG (py ''No tool call'') []]
         in process_user_prompt env user_prompt (w0, tr) = (Inr model_response, (w4, tr @ evs))
            \<and> length (filter is_chat evs) = 1
            \<and> filter is_call_tool evs = []"
  using assms by (simp add: process_user_prompt_def run_defs combined_prompt_def)

theorem direct_branch_answer_witness:
  "process_user_prompt (scripted_env (py ''4'')) (py ''What is 2+2?'') ([], []) =
     (Inr (py ''4''),
      ([], [EvListTools (Inr [Tool (py ''weather_tool'') (py ''Weather of a city'') (JObject [])]),
            EvListPrompts (Inr [Prompt (py ''weather_prompt''), Prompt (py ''weather_response_prompt'')]),
            EvGetPrompt (py ''weather_prompt'') None
              (Inr (GetPromptResult [PromptMessage (py ''user'') (TextContent system_text)])),
            EvChat default_model (system_text @ [newline] @ py ''What is 2+2?'') (Inr (py ''4'')),
            EvLog DEBUG (py ''No tool call'') []]))"
  using direct_branch_answer
    [of "scripted_env (py ''4'')" "[]" "[Tool (py ''weather_tool'') (py ''Weather of a city'') (JObject [])]" "[]"
        "[Prompt (py ''weather_prompt''), Prompt (py ''weather_response_prompt'')]" "[]"
        "GetPromptResult [PromptMessage (py ''user'') (TextContent system_text)]" "[]"
        system_text "py ''What is 2+2?''" "py ''4''" "[]" "[]"]
  by (simp add: scripted_defs parse_response_def pattern_eval)

text \<open>
  Claim C6: a turn that completes without error returns one answer, the last reply of the
  model in that turn, and has invoked the tool at most once, whichever branch it took.
\<close>

theorem turn_single_answer:
  assumes "process_user_prompt env user_prompt (w, tr) = (Inr answer, (w', tr'))"
  shows "\<exists>evs. tr' = tr @ evs \<and> length (filter is_call_tool evs) \<le> 1
           \<and> chat_replies evs \<noteq> [] \<and> answer = last (chat_replies evs)"
  using assms
  unfolding process_user_prompt_def model_call_def augmented_model_call_def Let_def
  by (auto elim!: action_InrE split: if_splits)

theorem turn_single_answer_witness:
  "\<exists>evs. [EvListTools (Inr [Tool (py ''weather_tool'') (py ''Weather of a city'') (JObject [])]),
            EvListPrompts (Inr [Prompt (py ''weather_prompt''), Prompt (py ''weather_response_prompt'')]),
            EvGetPrompt (py ''weather_prompt'') None
              (Inr (GetPromptResult [PromptMessage (py ''user'') (TextContent system_text)])),
            EvChat default_model (system_text @ [newline] @ py ''weather in Paris'')
              (Inr reply_paris),
            EvLog INFO (py ''Tool call with %s'') [ArgJson (JObject [(py ''city'', JString (py ''Paris''))])],
            EvCallTool (py ''weather_tool'') (JObject [(py ''city'', JString (py ''Paris''))])
              (Inr (CallToolResult [TextContent (py ''Sunny, 20C'')] False)),
            EvGetPrompt (py ''weather_response_prompt'')
              (Some [(py ''city'', JString (py ''Paris'')), (py ''weather'', JString (py ''Sunny, 20C''))])
              (Inr (GetPromptResult [PromptMessage (py ''user'') (TextContent follow_up_text)])),
            EvLog INFO (py ''Weather prompt is %s'') [ArgStr follow_up_text],
            EvChat default_model follow_up_text (Inr (py ''It is sunny in Paris.''))] = [] @ evs
      \<and> length (filter is_call_tool evs) \<le> 1
      \<and> chat_replies evs \<noteq> []
      \<and> (py ''It is sunny in Paris.'') = last (chat_replies evs)"
proof (rule turn_single_answer)
  show "process_user_prompt (scripted_env reply_paris) (py ''weather in Paris'') ([], []) =
     (Inr (py ''It is sunny in Paris.''),
      ([], [EvListTools (Inr [Tool (py ''weather_tool'') (py ''Weather of a city'') (JObject [])]),
            EvListPrompts (Inr [Prompt (py ''weather_prompt''), Prompt (py ''weather_response_prompt'')]),
            EvGetPrompt (py ''weather_prompt'') None
              (Inr (GetPromptResult [PromptMessage (py ''user'') (TextContent system_text)])),
            EvChat default_model (system_text @ [newline] @ py ''weather in Paris'')
              (Inr reply_paris),
            EvLog INFO (py ''Tool call with %s'') [ArgJson (JObject [(py ''city'', JString (py ''Paris''))])],
            EvCallTool (py ''weather_tool'') (JObject [(py ''city'', JString (py ''Paris''))])
              (Inr (CallToolResult [TextContent (py ''Sunny, 20C'')] False)),
            EvGetPrompt (py ''weather_response_prompt'')
              (Some [(py ''city'', JString (py ''Paris'')), (py ''weather'', JString (py ''Sunny, 20C''))])
              (Inr (GetPromptResult [PromptMessage (py ''user'') (TextContent follow_up_text)])),
            EvLog INFO (py ''Weather prompt is %s'') [ArgStr follow_up_text],
            EvChat default_model follow_up_text (Inr (py ''It is sunny in Paris.''))]))"
    by (simp add: process_user_prompt_def run_defs combined_prompt_def Let_def scripted_defs
          reply_paris_def parse_response_def pattern_eval)
qed

text \<open>
  Claim C7: when processing a turn raises, the chat loop catches the exception, prints
  \<^verbatim>\<open>Error:\<close> and the exception's text instead of an answer, and goes round again:
  the loop does what it does from the state after the diagnostic, where its next step is
  to read the next line.
\<close>

theorem failed_turn_reported_loop_continues:
  assumes "builtin_input env input_prompt w = (Inr line, w1)"
    and "lower (strip line) \<noteq> (py ''q'')"
    and "process_user_prompt env (strip line)
           (w1, tr @ [EvInput input_prompt (Inr line),
                      EvLog INFO (py ''User prompt is: %s'') [ArgStr (strip line)]])
           = (Inl e, (w2, tr2))"
  shows "chat_loop_body env (w, tr) =
           (Continue, (w2, tr2 @ [EvPrint ([newline] @ py ''Error: '' @ exc_str e)]))
       \<and> chat_loop_while env (w, tr) =
           chat_loop_while env (w2, tr2 @ [EvPrint ([newline] @ py ''Error: '' @ exc_str e)])"
  using chat_loop_body_error [OF assms] by (simp add: chat_loop_while_Continue)

theorem failed_turn_reported_loop_continues_witness:
  "chat_loop_while (scripted_env reply_bad_json) ([py ''weather in Paris'', py ''q''], []) =
     Some ([],
       [EvInput input_prompt (Inr (py ''weather in Paris'')),
        EvLog INFO (py ''User prompt is: %s'') [ArgStr (py ''weather in Paris'')],
        EvListTools (Inr [Tool (py ''weather_tool'') (py ''Weather of a city'') (JObject [])]),
        EvListPrompts (Inr [Prompt (py ''weather_prompt''), Prompt (py ''weather_response_prompt'')]),
        EvGetPrompt (py ''weather_prompt'') None
          (Inr (GetPromptResult [PromptMessage (py ''user'') (TextContent system_text)])),
        EvChat default_model (system_text @ [newline] @ py ''weather in Paris'')
          (Inr reply_bad_json),
        EvPrint ([newline] @ py ''Error: Expecting value: line 1 column 1 (char 0)''),
        EvInput input_prompt (Inr (py ''q'')),
        EvLog INFO (py ''User prompt is: %s'') [ArgStr (py ''q'')]])"
proof -
  have "chat_loop_while (scripted_env reply_bad_json) ([py ''weather in Paris'', py ''q''], []) =
     chat_loop_while (scripted_env reply_bad_json) ([py ''q''],
       [EvInput input_prompt (Inr (py ''weather in Paris'')),
        EvLog INFO (py ''User prompt is: %s'') [ArgStr (py ''weather in Paris'')],
        EvListTools (Inr [Tool (py ''weather_tool'') (py ''Weather of a city'') (JObject [])]),
        EvListPrompts (Inr [Prompt (py ''weather_prompt''), Prompt (py ''weather_response_prompt'')]),
        EvGetPrompt (py ''weather_prompt'') None
          (Inr (GetPromptResult [PromptMessage (py ''user'') (TextContent system_text)])),
        EvChat default_model (system_text @ [newline] @ py ''weather in Paris'')
          (Inr reply_bad_json),
        EvPrint ([newline] @ py ''Error: Expecting value: line 1 column 1 (char 0)'')])"
    using failed_turn_reported_loop_continues
      [of "scripted_env reply_bad_json" "[py ''weather in Paris'', py ''q'']" "py ''weather in Paris''"
          "[py ''q'']" "[]" "Exc ''JSONDecodeError'' (py ''Expecting value: line 1 column 1 (char 0)'')"
          "[py ''q'']"
          "[EvInput input_prompt (Inr (py ''weather in Paris'')),
            EvLog INFO (py ''User prompt is: %s'') [ArgStr (py ''weather in Paris'')],
            EvListTools (Inr [Tool (py ''weather_tool'') (py ''Weather of a city'') (JObject [])]),
            EvListPrompts (Inr [Prompt (py ''weather_prompt''), Prompt (py ''weather_response_prompt'')]),
            EvGetPrompt (py ''weather_prompt'') None
              (Inr (GetPromptResult [PromptMessage (py ''user'') (TextContent system_text)])),
            EvChat default_model (system_text @ [newline] @ py ''weather in Paris'')
              (Inr reply_bad_json)]"]
    by (simp add: process_user_prompt_def run_defs combined_prompt_def scripted_defs
          reply_bad_json_def parse_response_def pattern_eval strip_def isspace_def lower_def
          lower_char_def)
  also have "\<dots> = Some ([],
       [EvInput input_prompt (Inr (py ''weather in Paris'')),
        EvLog INFO (py ''User prompt is: %s'') [ArgStr (py ''weather in Paris'')],
        EvListTools (Inr [Tool (py ''weather_tool'') (py ''Weather of a city'') (JObject [])]),
        EvListPrompts (Inr [Prompt (py ''weather_prompt''), Prompt (py ''weather_response_prompt'')]),
        EvGetPrompt (py ''weather_prompt'') None
          (Inr (GetPromptResult [PromptMessage (py ''user'') (TextContent system_text)])),
        EvChat default_model (system_text @ [newline] @ py ''weather in Paris'')
          (Inr reply_bad_json),
        EvPrint ([newline] @ py ''Error: Expecting value: line 1 column 1 (char 0)''),
        EvInput input_prompt (Inr (py ''q'')),
        EvLog INFO (py ''User prompt is: %s'') [ArgStr (py ''q'')]])"
    by (simp add: scripted_quit strip_def isspace_def lower_def lower_char_def py_def)
  finally show ?thesis .
qed

text \<open>
  Claim C8: the prompt that \<^verbatim>\<open>augmented_model_call\<close> hands to the model is the
  template text, one newline, and the user text, each whole and unchanged; it is a
  function of the two texts alone.
\<close>

theorem augmented_model_call_prompt:
  "combined_prompt template_text user_text = template_text @ [newline] @ user_text
   \<and> take (length template_text) (combined_prompt template_text user_text) = template_text
   \<and> drop (length template_text + 1) (combined_prompt template_text user_text) = user_text
   \<and> augmented_model_call env template_text user_text (w, tr) =
       (case ollama_chat env default_model (template_text @ [newline] @ user_text) w of
          (r, w') \<Rightarrow>
            (r, (w', tr @ [EvChat default_model (template_text @ [newline] @ user_text) r])))"
  by (simp add: combined_prompt_def augmented_model_call_def model_call_def call_def)

text \<open>
  Claim C9: one pass of the chat loop reads one line at the prompt; a line that is the quit
  token (\<^verbatim>\<open>q\<close>, after stripping and lower-casing) ends the loop with no turn
  processed; any other line is stripped and handed to \<^verbatim>\<open>process_user_prompt\<close>, and
  the answer it returns is printed before the loop goes round again.
\<close>

theorem chat_loop_reads_quits_forwards:
  assumes "builtin_input env input_prompt w = (Inr line, w1)"
  shows "(lower (strip line) = py ''q'' \<longrightarrow>
            chat_loop_while env (w, tr) =
              Some (w1, tr @ [EvInput input_prompt (Inr line),
                              EvLog INFO (py ''User prompt is: %s'') [ArgStr (strip line)]]))
       \<and> (lower (strip line) \<noteq> (py ''q'') \<longrightarrow>
            (\<forall>response w2 tr2.
               process_user_prompt env (strip line)
                 (w1, tr @ [EvInput input_prompt (Inr line),
                            EvLog INFO (py ''User prompt is: %s'') [ArgStr (strip line)]])
                 = (Inr response, (w2, tr2)) \<longrightarrow>
               chat_loop_while env (w, tr) =
                 chat_loop_while env (w2, tr2 @ [EvPrint ([newline] @ response)])))"
proof (intro conjI impI allI)
  assume "lower (strip line) = py ''q''"
  with assms show "chat_loop_while env (w, tr) =
      Some (w1, tr @ [EvInput input_prompt (Inr line),
                      EvLog INFO (py ''User prompt is: %s'') [ArgStr (strip line)]])"
    by (intro chat_loop_while_Break chat_loop_body_quit)
next
  fix response w2 tr2
  assume "lower (strip line) \<noteq> (py ''q'')"
    and "process_user_prompt env (strip line)
           (w1, tr @ [EvInput input_prompt (Inr line),
                      EvLog INFO (py ''User prompt is: %s'') [ArgStr (strip line)]])
           = (Inr response, (w2, tr2))"
  with assms show "chat_loop_while env (w, tr) =
      chat_loop_while env (w2, tr2 @ [EvPrint ([newline] @ response)])"
    by (intro chat_loop_while_Continue chat_loop_body_answer)
qed

theorem chat_loop_reads_quits_forwards_witness:
  "chat_loop (scripted_env (py ''4'')) ([py '' What is 2+2?  '', [0xA0] @ py ''Q'' @ [0x85]], []) =
     Some ([],
       [EvPrint ([newline] @ py ''MCP Client Started!''),
        EvPrint (py ''Type your queries or '' @ [quote] @ py ''quit'' @ [quote] @ py '' to exit.''),
        EvInput input_prompt (Inr (py '' What is 2+2?  '')),
        EvLog INFO (py ''User prompt is: %s'') [ArgStr (py ''What is 2+2?'')],
        EvListTools (Inr [Tool (py ''weather_tool'') (py ''Weather of a city'') (JObject [])]),
        EvListPrompts (Inr [Prompt (py ''weather_prompt''), Prompt (py ''weather_response_prompt'')]),
        EvGetPrompt (py ''weather_prompt'') None
          (Inr (GetPromptResult [PromptMessage (py ''user'') (TextContent system_text)])),
        EvChat default_model (system_text @ [newline] @ py ''What is 2+2?'') (Inr (py ''4'')),
        EvLog DEBUG (py ''No tool call'') [],
        EvPrint ([newline] @ py ''4''),
        EvInput input_prompt (Inr ([0xA0] @ py ''Q'' @ [0x85])),
        EvLog INFO (py ''User prompt is: %s'') [ArgStr (py ''Q'')]])"
proof -
  let ?env = "scripted_env (py ''4'')"
  let ?banner = "[EvPrint ([newline] @ py ''MCP Client Started!''),
        EvPrint (py ''Type your queries or '' @ [quote] @ py ''quit'' @ [quote] @ py '' to exit.'')]"
  let ?turn = "[EvInput input_prompt (Inr (py '' What is 2+2?  '')),
        EvLog INFO (py ''User prompt is: %s'') [ArgStr (py ''What is 2+2?'')],
        EvListTools (Inr [Tool (py ''weather_tool'') (py ''Weather of a city'') (JObject [])]),
        EvListPrompts (Inr [Prompt (py ''weather_prompt''), Prompt (py ''weather_response_prompt'')]),
        EvGetPrompt (py ''weather_prompt'') None
          (Inr (GetPromptResult [PromptMessage (py ''user'') (TextContent system_text)])),
        EvChat default_model (system_text @ [newline] @ py ''What is 2+2?'') (Inr (py ''4'')),
        EvLog DEBUG (py ''No tool call'') []]"
  have "chat_loop ?env ([py '' What is 2+2?  '', [0xA0] @ py ''Q'' @ [0x85]], []) =
          chat_loop_while ?env ([py '' What is 2+2?  '', [0xA0] @ py ''Q'' @ [0x85]], ?banner)"
    by (simp add: chat_loop_def and_then_def emit_def)
  also have "\<dots> = chat_loop_while ?env ([[0xA0] @ py ''Q'' @ [0x85]], ?banner @ ?turn @ [EvPrint ([newline] @ py ''4'')])"
    using chat_loop_reads_quits_forwards
      [of ?env "[py '' What is 2+2?  '', [0xA0] @ py ''Q'' @ [0x85]]" "py '' What is 2+2?  ''" "[[0xA0] @ py ''Q'' @ [0x85]]" ?banner]
    by (simp add: process_user_prompt_def run_defs combined_prompt_def scripted_defs
          parse_response_def pattern_eval strip_def isspace_def lower_def lower_char_def)
  also have "\<dots> = Some ([], ?banner @ ?turn @ [EvPrint ([newline] @ py ''4''),
        EvInput input_prompt (Inr ([0xA0] @ py ''Q'' @ [0x85])), EvLog INFO (py ''User prompt is: %s'') [ArgStr (py ''Q'')]])"
    using chat_loop_reads_quits_forwards
      [of ?env "[[0xA0] @ py ''Q'' @ [0x85]]" "[0xA0] @ py ''Q'' @ [0x85]" "[]" "?banner @ ?turn @ [EvPrint ([newline] @ py ''4'')]"]
    by (simp add: scripted_defs strip_def isspace_def lower_def lower_char_def)
  finally show ?thesis by simp
qed

text \<open>
  Claim C10: when the pattern is found and the captured text parses to a value that Python
  counts as false (the empty object, \<^verbatim>\<open>null\<close>, \<^verbatim>\<open>false\<close>, \<^verbatim>\<open>0\<close>, the empty
  string, and every other false value), the turn takes the direct branch: no tool is
  invoked, no follow-up prompt is retrieved, and the first model response, fence included,
  is the answer.
\<close>

theorem falsy_payload_takes_direct_branch:
  assumes "session_list_tools env w0 = (Inr tools, w1)"
    and "session_list_prompts env w1 = (Inr prompts, w2)"
    and "session_get_prompt env (py ''weather_prompt'') None w2 = (Inr prompt, w3)"
    and "first_message_text prompt = Inr system_prompt"
    and "ollama_chat env default_model (system_prompt @ [newline] @ user_prompt) w3
           = (Inr model_response, w4)"
    and "re_search TOOL_PATTERN model_response = Some (inner # groups)"
    and "json_loads env inner = Inr v"
    and "v = JObject [] \<or> v = JNull \<or> v = JBool False \<or> v = JInt 0 \<or> v = JString []
           \<or> \<not> truthy v"
  shows "process_user_prompt env user_prompt (w0, tr) =
           (Inr model_response,
            (w4, tr @ [EvListTools (Inr tools), EvListPrompts (Inr prompts),
                       EvGetPrompt (py ''weather_prompt'') None (Inr prompt),
                       EvChat default_model (system_prompt @ [newline] @ user_prompt)
                         (Inr model_response),
                       EvLog DEBUG (py ''No tool call'') []]))"
proof -
  from assms(8) have "\<not> truthy v" by auto
  moreover have "parse_response (json_loads env) model_response = Inr v"
    using assms(6,7) by (simp add: parse_response_def index0_def)
  ultimately show ?thesis
    using assms(1-5) by (simp add: process_user_prompt_def run_defs combined_prompt_def)
qed

theorem falsy_payload_takes_direct_branch_witness:
  "process_user_prompt (scripted_env reply_empty_object) (py ''weather in Paris'') ([], []) =
     (Inr reply_empty_object,
      ([], [EvListTools (Inr [Tool (py ''weather_tool'') (py ''Weather of a city'') (JObject [])]),
            EvListPrompts (Inr [Prompt (py ''weather_prompt''), Prompt (py ''weather_response_prompt'')]),
            EvGetPrompt (py ''weather_prompt'') None
              (Inr (GetPromptResult [PromptMessage (py ''user'') (TextContent system_text)])),
            EvChat default_model (system_text @ [newline] @ py ''weather in Paris'')
              (Inr reply_empty_object),
            EvLog DEBUG (py ''No tool call'') []]))"
  using falsy_payload_takes_direct_branch
    [of "scripted_env reply_empty_object" "[]"
        "[Tool (py ''weather_tool'') (py ''Weather of a city'') (JObject [])]" "[]"
        "[Prompt (py ''weather_prompt''), Prompt (py ''weather_response_prompt'')]" "[]"
        "GetPromptResult [PromptMessage (py ''user'') (TextContent system_text)]" "[]"
        system_text "py ''weather in Paris''" reply_empty_object "[]" "py ''{}''" "[]"
        "JObject []" "[]"]
  by (simp add: scripted_defs reply_empty_object_def pattern_eval)

end
